theory Spec2Isabelle
  imports Main
begin

section \<open>Values, errors and messages\<close>

text \<open>
  Cached values and reply payloads are the JSON-like values that cross the IPC channel.
  A JavaScript \<open>undefined\<close> is \<open>None\<close> of an option type, so a cache miss is
  \<open>None\<close>.
\<close>

datatype jsval =
    JBool bool
  | JNum int
  | JStr string
  | JArr "jsval list"
  | JObj "(string \<times> jsval) list"

text \<open>
  The source throws \<open>new Error(msg)\<close> and \<open>new TypeError(msg)\<close>; a thrown exception is
  a value of this type. The specification's RoleViolation, StoreError and TimeoutError are
  \<open>Error\<close> values, its UnknownOperation is a \<open>TypeError\<close>.
\<close>

datatype error = Error string | TypeError string

text \<open>The string a template literal makes of an error: its name, a colon, its message.\<close>

fun error_to_string :: "error \<Rightarrow> string" where
  "error_to_string (Error m) = ''Error: '' @ m"
| "error_to_string (TypeError m) = ''TypeError: '' @ m"

text \<open>
  \<open>types.ts\<close>: the options object of a request (the union of the get and the set options
  the client sends), the arguments of a cache function, a Request and a Reply. An absent
  property is \<open>None\<close>. The property \<open>value\<close> of the arguments is the field \<open>val\<close>, and
  the fields of a Reply carry the prefix \<open>reply_\<close>, as field names are shared by no two
  records.
\<close>

record request_options =
  allowStale :: "bool option"
  ttl :: "nat option"
  updateAgeOnGet :: "bool option"
  size_opt :: "nat option"

record cacheFnArguments =
  key :: "string option"
  namespace :: string
  options :: "request_options option"
  val :: "jsval option"

record request =
  args :: cacheFnArguments
  clientId :: string
  operation :: string
  requestId :: string
  sourceId :: string

record reply =
  reply_clientId :: string
  reply_data :: "jsval option"
  reply_error :: "error option"
  reply_requestId :: string
  reply_sourceId :: string

type_synonym logger = string

type_synonym worker = nat

section \<open>The bounded cache store\<close>

text \<open>
  Modelled from the spec: the Bounded Cache Store is the \<open>lru-cache\<close> package, an external
  collaborator whose code is not part of the repository. Every definition of this section
  models it, along the contract the coordinator uses: entries keyed by string and kept in
  recency order (most recently used first), a bound \<open>max\<close> on the number of entries and a
  bound \<open>maxSize\<close> on their total size (0 means no bound), eviction of the least recently
  used entries, and a \<open>set\<close> that throws when sizes are tracked and the entry comes without
  a positive size. Expiry by age needs a clock and is left out: \<open>ttl\<close> only counts as one of
  the three bounds the constructor asks for. The fields \<open>max\<close>, \<open>ttl\<close> and \<open>size\<close> carry
  the suffix \<open>_opt\<close>.
\<close>

record lru_options =
  max_opt :: nat
  maxSize :: nat
  ttl_opt :: nat

record lru_cache =
  entries :: "(string \<times> jsval \<times> nat) list"
  lru_max :: nat
  lru_maxSize :: nat

text \<open>Modelled from the spec: the constructor asks for one of the three bounds.\<close>

definition new_LRUCache :: "lru_options \<Rightarrow> error + lru_cache" where
  "new_LRUCache opts =
     (if max_opt opts = 0 \<and> ttl_opt opts = 0 \<and> maxSize opts = 0
      then Inl (TypeError ''At least one of max, maxSize, or ttl is required'')
      else Inr \<lparr>entries = [], lru_max = max_opt opts, lru_maxSize = maxSize opts\<rparr>)"

text \<open>Modelled from the spec: \<open>has(k)\<close> and \<open>delete(k)\<close>.\<close>

definition lru_has :: "lru_cache \<Rightarrow> string \<Rightarrow> bool" where
  "lru_has c k = (find (\<lambda>e. fst e = k) (entries c) \<noteq> None)"

definition lru_delete :: "lru_cache \<Rightarrow> string \<Rightarrow> lru_cache" where
  "lru_delete c k = c\<lparr>entries := filter (\<lambda>e. fst e \<noteq> k) (entries c)\<rparr>"

text \<open>
  Modelled from the spec: \<open>get(k, options)\<close>. A hit returns the value and makes the entry the most recently used
  one. The options of a \<open>get\<close> (\<open>allowStale\<close>, \<open>updateAgeOnGet\<close>) bear on expiry only, so
  without a clock they change nothing.
\<close>

definition lru_get :: "lru_cache \<Rightarrow> string \<Rightarrow> request_options option \<Rightarrow> jsval option \<times> lru_cache" where
  "lru_get c k opts =
     (case find (\<lambda>e. fst e = k) (entries c) of
        None \<Rightarrow> (None, c)
      | Some e \<Rightarrow> (Some (fst (snd e)), c\<lparr>entries := e # filter (\<lambda>e. fst e \<noteq> k) (entries c)\<rparr>))"

definition total_size :: "(string \<times> jsval \<times> nat) list \<Rightarrow> nat" where
  "total_size es = sum_list (map (\<lambda>e. snd (snd e)) es)"

text \<open>
  Modelled from the spec: eviction from the least recently used end while the entries
  exceed the budget.
\<close>

function evict_to_fit :: "nat \<Rightarrow> (string \<times> jsval \<times> nat) list \<Rightarrow> (string \<times> jsval \<times> nat) list" where
  "evict_to_fit budget es =
     (if es \<noteq> [] \<and> budget < total_size es then evict_to_fit budget (butlast es) else es)"
  by pat_completeness auto
termination
  by (relation "measure (\<lambda>(b, es). length es)") auto

declare evict_to_fit.simps [simp del]

text \<open>
  Modelled from the spec: \<open>set(k, v, {size})\<close>. Storing \<open>undefined\<close> deletes the key; with a size bound the entry
  needs a positive size (a \<open>TypeError\<close> otherwise) and an entry larger than the bound is
  not stored (and the key is deleted); otherwise the entry becomes the most recently used
  one, after the least recently used entries have made room for it.
\<close>

definition lru_set :: "lru_cache \<Rightarrow> string \<Rightarrow> jsval option \<Rightarrow> request_options option \<Rightarrow> error + lru_cache" where
  "lru_set c k v opts =
     (case v of
        None \<Rightarrow> Inr (lru_delete c k)
      | Some x \<Rightarrow>
          (let sz = (case opts of None \<Rightarrow> 0 | Some p \<Rightarrow> (case size_opt p of None \<Rightarrow> 0 | Some n \<Rightarrow> n)) in
           if 0 < lru_maxSize c \<and> sz = 0
           then Inl (TypeError ''invalid size value (must be positive integer). When maxSize or maxEntrySize is used, sizeCalculation or size must be set.'')
           else if 0 < lru_maxSize c \<and> lru_maxSize c < sz
           then Inr (lru_delete c k)
           else
             (let others = filter (\<lambda>e. fst e \<noteq> k) (entries c);
                  counted = (if 0 < lru_max c \<and> lru_max c \<le> length others then butlast others else others);
                  sized = (if 0 < lru_maxSize c then evict_to_fit (lru_maxSize c - sz) counted else counted)
              in Inr (c\<lparr>entries := (k, x, (if 0 < lru_maxSize c then sz else 0)) # sized\<rparr>))))"

text \<open>
  Modelled from the spec: \<open>forEach(fn)\<close> walks the entries from the most recently used one and calls \<open>fn(value, key,
  cache)\<close> on each entry that is still in the cache when its turn comes; the callback may
  change the cache.
\<close>

definition lru_forEach :: "(jsval \<Rightarrow> string \<Rightarrow> lru_cache \<Rightarrow> lru_cache) \<Rightarrow> lru_cache \<Rightarrow> lru_cache" where
  "lru_forEach fn c =
     fold (\<lambda>e acc. if lru_has acc (fst e) then fn (fst (snd e)) (fst e) acc else acc) (entries c) c"

section \<open>The coordinator object\<close>

record cluster_cache =
  cache :: lru_cache
  cc_logger :: logger
  cc_options :: lru_options

section \<open>The state of a process\<close>

text \<open>
  \<open>ClusterCacheClient.defaultConfig\<close>, and the configuration object a client is constructed
  with, which may give any part of it.
\<close>

record client_config =
  allowOverrides :: bool
  cfg_logger :: logger
  cfg_namespace :: string
  requestTimeout :: nat
  requestOptions :: request_options
  cfg_updateAgeOnGet :: bool

record config_arg =
  arg_allowOverrides :: "bool option"
  arg_logger :: "logger option"
  arg_namespace :: "string option"
  arg_requestTimeout :: "nat option"
  arg_requestOptions :: "request_options option"
  arg_updateAgeOnGet :: "bool option"

text \<open>
  A promise made by \<open>request\<close>, and a timer set by it. Both are identified by the id of
  the request they were made for. The timer's callback is a closure that rejects the promise
  with the error it built; the function stored in \<open>pendingRequests\<close> is a closure over the
  timer and the promise.
\<close>

datatype promise = Pending | Resolved "jsval option" | Rejected error

datatype timer = Timer (delay: nat) (rejects: string) (reason: error)

datatype callback = Callback (clears: string) (settles: string)

text \<open>
  The state of one process that the two classes read and write: the role of the process
  (\<open>cluster.isPrimary\<close>), the static \<open>ClusterCache.instance\<close>, the number of handlers
  registered with \<open>cluster.on('message', ...)\<close>, the static
  \<open>ClusterCacheClient.defaultConfig\<close> object, the clients whose \<open>handleReply\<close> is
  registered with \<open>process.on('message', ...)\<close>, whether \<open>process.send\<close> is defined, the
  messages passed to it, the warnings written to loggers, the timers that are set and
  the promises made.
\<close>

record process_state =
  isPrimary :: bool
  ClusterCache_instance :: "cluster_cache option"
  clusterListeners :: nat
  defaultConfig :: client_config
  processListeners :: "string list"
  hasSend :: bool
  sent :: "request list"
  warnings :: "(logger \<times> string) list"
  timers :: "string \<rightharpoonup> timer"
  promises :: "string \<rightharpoonup> promise"

section \<open>The coordinator: \<open>ClusterCache.ts\<close>\<close>

definition ClusterCache_sourceId :: string where
  "ClusterCache_sourceId = ''cluster-cache''"

text \<open>
  The constructor. It returns the object the \<open>new\<close> expression evaluates to, or the
  exception it throws, together with the state of the process afterwards.
\<close>

definition ClusterCache_constructor ::
  "process_state \<Rightarrow> lru_options \<Rightarrow> logger \<Rightarrow> (error + cluster_cache) \<times> process_state" where
  "ClusterCache_constructor s opts lg =
     (case ClusterCache_instance s of
        Some existing \<Rightarrow> (Inr existing, s)
      | None \<Rightarrow>
          if \<not> isPrimary s
          then (Inl (Error ''A shared cache may only be initialized on the primary process.''), s)
          else
            (case new_LRUCache opts of
               Inl e \<Rightarrow> (Inl e, s)
             | Inr c \<Rightarrow>
                 (let this = \<lparr>cache = c, cc_logger = lg, cc_options = opts\<rparr>
                  in (Inr this,
                      s\<lparr>ClusterCache_instance := Some this,
                        clusterListeners := Suc (clusterListeners s)\<rparr>))))"

text \<open>\<open>applyNamespace\<close>: the key defaults to the empty string when it is \<open>undefined\<close>.\<close>

definition applyNamespace :: "string \<Rightarrow> string option \<Rightarrow> string" where
  "applyNamespace ns k = ns @ '':'' @ (case k of None \<Rightarrow> '''' | Some k' \<Rightarrow> k')"

text \<open>\<open>String.prototype.startsWith\<close>.\<close>

fun startsWith :: "string \<Rightarrow> string \<Rightarrow> bool" where
  "startsWith s [] = True"
| "startsWith [] (p # ps) = False"
| "startsWith (c # cs) (p # ps) = (c = p \<and> startsWith cs ps)"

text \<open>
  The four cache functions. Each returns the value it returns or the exception it throws,
  and the coordinator afterwards.
\<close>

definition OK :: jsval where
  "OK = JStr ''OK''"

definition ClusterCache_clear ::
  "cluster_cache \<Rightarrow> cacheFnArguments \<Rightarrow> (error + jsval option) \<times> cluster_cache" where
  "ClusterCache_clear this a =
     (Inr (Some OK),
      this\<lparr>cache :=
        lru_forEach
          (\<lambda>_ k c. if startsWith k (applyNamespace (namespace a) (Some '''')) then lru_delete c k else c)
          (cache this)\<rparr>)"

definition ClusterCache_delete ::
  "cluster_cache \<Rightarrow> cacheFnArguments \<Rightarrow> (error + jsval option) \<times> cluster_cache" where
  "ClusterCache_delete this a =
     (Inr (Some OK), this\<lparr>cache := lru_delete (cache this) (applyNamespace (namespace a) (key a))\<rparr>)"

definition ClusterCache_get ::
  "cluster_cache \<Rightarrow> cacheFnArguments \<Rightarrow> (error + jsval option) \<times> cluster_cache" where
  "ClusterCache_get this a =
     (case lru_get (cache this) (applyNamespace (namespace a) (key a)) (options a) of
        (v, c) \<Rightarrow> (Inr v, this\<lparr>cache := c\<rparr>))"

definition ClusterCache_set ::
  "cluster_cache \<Rightarrow> cacheFnArguments \<Rightarrow> (error + jsval option) \<times> cluster_cache" where
  "ClusterCache_set this a =
     (case lru_set (cache this) (applyNamespace (namespace a) (key a)) (val a) (options a) of
        Inr c \<Rightarrow> (Inr (Some OK), this\<lparr>cache := c\<rparr>)
      | Inl e \<Rightarrow>
          (Inl (Error (''Failed to cache value for key '' @ applyNamespace (namespace a) (key a)
                       @ '': '' @ error_to_string e)),
           this))"

text \<open>\<open>getCacheFn\<close>: the switch over the operation, throwing in its default branch.\<close>

definition getCacheFn ::
  "string \<Rightarrow> error + (cluster_cache \<Rightarrow> cacheFnArguments \<Rightarrow> (error + jsval option) \<times> cluster_cache)" where
  "getCacheFn op =
     (if op = ''clear'' then Inr ClusterCache_clear
      else if op = ''delete'' then Inr ClusterCache_delete
      else if op = ''get'' then Inr ClusterCache_get
      else if op = ''set'' then Inr ClusterCache_set
      else Inl (TypeError ([CHR 0x27] @ op @ [CHR 0x27] @ '' is not a recognized cluster cache operation.'')))"

text \<open>\<open>reply\<close>: \<open>worker.send(reply)\<close>, as the message and the worker it goes to.\<close>

definition reply_to :: "worker \<Rightarrow> reply \<Rightarrow> worker \<times> reply" where
  "reply_to w r = (w, r)"

text \<open>
  \<open>handleRequest\<close>. The result is the message it sends, or the exception that leaves it
  (then nothing was sent), and the coordinator afterwards. \<open>getCacheFn\<close> is called before
  the \<open>try\<close> block, so what it throws is not caught.
\<close>

definition handleRequest ::
  "cluster_cache \<Rightarrow> worker \<Rightarrow> request \<Rightarrow> (error + worker \<times> reply) \<times> cluster_cache" where
  "handleRequest this w req =
     (case getCacheFn (operation req) of
        Inl e \<Rightarrow> (Inl e, this)
      | Inr cacheFn \<Rightarrow>
          (case cacheFn this (args req) of
             (Inr data, this') \<Rightarrow>
               (Inr (reply_to w \<lparr>reply_clientId = clientId req, reply_data = data, reply_error = None,
                                reply_requestId = requestId req, reply_sourceId = sourceId req\<rparr>),
                this')
           | (Inl err, this') \<Rightarrow>
               (Inr (reply_to w \<lparr>reply_clientId = clientId req, reply_data = None, reply_error = Some err,
                                reply_requestId = requestId req, reply_sourceId = sourceId req\<rparr>),
                this')))"

section \<open>The client: \<open>ClusterCacheClient.ts\<close>\<close>

text \<open>The initial value of the static \<open>defaultConfig\<close>: the documented defaults.\<close>

definition initial_defaultConfig :: client_config where
  "initial_defaultConfig =
     \<lparr>allowOverrides = False,
      cfg_logger = ''console'',
      cfg_namespace = '''',
      requestTimeout = 300,
      requestOptions = \<lparr>allowStale = Some False, ttl = Some 300000, updateAgeOnGet = Some True, size_opt = None\<rparr>,
      cfg_updateAgeOnGet = True\<rparr>"

text \<open>
  Modelled from the spec: lodash's \<open>merge(object, source)\<close> is an external collaborator
  whose code is not part of the repository. It assigns the properties
  of \<open>source\<close> into \<open>object\<close> itself, recursively for nested plain objects, skips properties
  of \<open>source\<close> that are \<open>undefined\<close> where \<open>object\<close> has a value, and returns \<open>object\<close>.
  The two functions below give the value of \<open>object\<close> afterwards; their callers store it
  back where \<open>object\<close> lives.
\<close>

definition or_else :: "'a option \<Rightarrow> 'a option \<Rightarrow> 'a option" where
  "or_else src dst = (case src of None \<Rightarrow> dst | Some x \<Rightarrow> Some x)"

definition merge_options :: "request_options \<Rightarrow> request_options option \<Rightarrow> request_options" where
  "merge_options object source =
     (case source of
        None \<Rightarrow> object
      | Some src \<Rightarrow>
          \<lparr>allowStale = or_else (allowStale src) (allowStale object),
           ttl = or_else (ttl src) (ttl object),
           updateAgeOnGet = or_else (updateAgeOnGet src) (updateAgeOnGet object),
           size_opt = or_else (size_opt src) (size_opt object)\<rparr>)"

definition merge_config :: "client_config \<Rightarrow> config_arg \<Rightarrow> client_config" where
  "merge_config object source =
     \<lparr>allowOverrides = (case arg_allowOverrides source of None \<Rightarrow> allowOverrides object | Some b \<Rightarrow> b),
      cfg_logger = (case arg_logger source of None \<Rightarrow> cfg_logger object | Some l \<Rightarrow> l),
      cfg_namespace = (case arg_namespace source of None \<Rightarrow> cfg_namespace object | Some n \<Rightarrow> n),
      requestTimeout = (case arg_requestTimeout source of None \<Rightarrow> requestTimeout object | Some n \<Rightarrow> n),
      requestOptions = merge_options (requestOptions object) (arg_requestOptions source),
      cfg_updateAgeOnGet = (case arg_updateAgeOnGet source of None \<Rightarrow> cfg_updateAgeOnGet object | Some b \<Rightarrow> b)\<rparr>"

text \<open>The argument \<open>{}\<close>, which is also the default of an omitted argument.\<close>

definition empty_config :: config_arg where
  "empty_config =
     \<lparr>arg_allowOverrides = None, arg_logger = None, arg_namespace = None,
      arg_requestTimeout = None, arg_requestOptions = None, arg_updateAgeOnGet = None\<rparr>"

text \<open>
  A client object. Its \<open>config\<close> field is not a field of the record: the constructor sets it
  to what \<open>merge(ClusterCacheClient.defaultConfig, config)\<close> returns, and that is the static
  object itself, so reading \<open>this.config\<close> reads the static \<open>defaultConfig\<close> of the process.
\<close>

record client =
  client_id :: string
  client_logger :: logger
  client_namespace :: string
  pendingRequests :: "string \<rightharpoonup> callback"

definition config :: "process_state \<Rightarrow> client \<Rightarrow> client_config" where
  "config s this = defaultConfig s"

definition ClusterCacheClient_sourceId :: string where
  "ClusterCacheClient_sourceId = ''cluster-cache''"

text \<open>
  The constructor; \<open>newId\<close> is the identifier \<open>generateId()\<close> returns. It returns the new
  client, or the exception thrown, and the state of the process afterwards.
\<close>

definition ClusterCacheClient_constructor ::
  "process_state \<Rightarrow> config_arg \<Rightarrow> string \<Rightarrow> (error + client) \<times> process_state" where
  "ClusterCacheClient_constructor s cfg newId =
     (if isPrimary s
      then (Inl (Error (''Cluster cache client may not be initialized in the cluster''
                        @ [CHR 0x27] @ ''s primary process.'')), s)
      else
        (let s1 = s\<lparr>defaultConfig := merge_config (defaultConfig s) cfg\<rparr>;
             this0 = \<lparr>client_id = newId, client_logger = '''', client_namespace = '''',
                      pendingRequests = Map.empty\<rparr>;
             this1 = this0\<lparr>client_logger := cfg_logger (config s1 this0)\<rparr>;
             this2 = this1\<lparr>client_namespace :=
                       (if cfg_namespace (config s1 this1) = '''' then client_id this1
                        else cfg_namespace (config s1 this1))\<rparr>
         in (Inr this2, s1\<lparr>processListeners := processListeners s1 @ [newId]\<rparr>)))"

text \<open>
  \<open>addRequestOptions\<close>. The warning goes to the client's logger. In the other branch
  \<open>merge(this.config.requestOptions, overrides)\<close> assigns the overrides into the
  \<open>requestOptions\<close> object of the configuration and returns that object.
\<close>

definition overrides_warning :: string where
  "overrides_warning =
     ''Overrides not applied because cluster cache client not configured to allow per-operation overrides.''"

definition addRequestOptions ::
  "process_state \<Rightarrow> client \<Rightarrow> cacheFnArguments \<Rightarrow> request_options option
     \<Rightarrow> cacheFnArguments \<times> process_state" where
  "addRequestOptions s this a overrides =
     (if overrides \<noteq> None \<and> \<not> allowOverrides (config s this)
      then (a, s\<lparr>warnings := warnings s @ [(client_logger this, overrides_warning)]\<rparr>)
      else
        (let merged = merge_options (requestOptions (config s this)) overrides
         in (a\<lparr>options := Some merged\<rparr>,
             s\<lparr>defaultConfig := (defaultConfig s)\<lparr>requestOptions := merged\<rparr>\<rparr>)))"

text \<open>Settling a promise: only a pending promise changes.\<close>

definition resolve :: "string \<Rightarrow> jsval option \<Rightarrow> process_state \<Rightarrow> process_state" where
  "resolve p v s =
     (case promises s p of
        Some Pending \<Rightarrow> s\<lparr>promises := (promises s)(p \<mapsto> Resolved v)\<rparr>
      | _ \<Rightarrow> s)"

definition reject :: "string \<Rightarrow> error \<Rightarrow> process_state \<Rightarrow> process_state" where
  "reject p e s =
     (case promises s p of
        Some Pending \<Rightarrow> s\<lparr>promises := (promises s)(p \<mapsto> Rejected e)\<rparr>
      | _ \<Rightarrow> s)"

definition clearTimeout :: "string \<Rightarrow> process_state \<Rightarrow> process_state" where
  "clearTimeout t s = s\<lparr>timers := (timers s)(t := None)\<rparr>"

definition timeout_error :: "string \<Rightarrow> string \<Rightarrow> string \<Rightarrow> error" where
  "timeout_error op rid cid =
     Error (''Cluster cache '' @ op @ '' request timed out: request ID '' @ rid
            @ '', client ID '' @ cid @ ''.'')"

text \<open>
  \<open>request\<close>; \<open>rid\<close> is the identifier \<open>generateId()\<close> returns. The executor of the promise
  runs at once: it sets the failsafe timer, stores the callback under the request id and
  sends the message when \<open>process.send\<close> is defined. The promise returned is the one
  stored under \<open>rid\<close>.
\<close>

definition ClusterCacheClient_request ::
  "process_state \<Rightarrow> client \<Rightarrow> string \<Rightarrow> cacheFnArguments \<Rightarrow> string \<Rightarrow> client \<times> process_state" where
  "ClusterCacheClient_request s this op a rid =
     (let s1 = s\<lparr>promises := (promises s)(rid \<mapsto> Pending)\<rparr>;
          message = \<lparr>args = a, clientId = client_id this, operation = op, requestId = rid,
                     sourceId = ClusterCacheClient_sourceId\<rparr>;
          s2 = s1\<lparr>timers := (timers s1)(rid \<mapsto>
                   Timer (requestTimeout (config s1 this)) rid (timeout_error op rid (client_id this)))\<rparr>;
          this' = this\<lparr>pendingRequests := (pendingRequests this)(rid \<mapsto> Callback rid rid)\<rparr>;
          s3 = (if hasSend s2 then s2\<lparr>sent := sent s2 @ [message]\<rparr> else s2)
      in (this', s3))"

text \<open>
  The callback of the failsafe timer of request \<open>rid\<close>, run by the event loop when the
  timer fires: it rejects the promise. A timer fires once, and only while it is set. The
  closure can reach the client through \<open>this\<close> and leaves it as it is.
\<close>

definition fire_timeout :: "process_state \<Rightarrow> client \<Rightarrow> string \<Rightarrow> client \<times> process_state" where
  "fire_timeout s this rid =
     (case timers s rid of
        None \<Rightarrow> (this, s)
      | Some t \<Rightarrow> (this, reject (rejects t) (reason t) (s\<lparr>timers := (timers s)(rid := None)\<rparr>)))"

text \<open>The function stored in \<open>pendingRequests\<close>, applied to a reply.\<close>

definition run_callback :: "callback \<Rightarrow> reply \<Rightarrow> process_state \<Rightarrow> process_state" where
  "run_callback cb r s =
     (let s1 = clearTimeout (clears cb) s
      in case reply_error r of
           Some e \<Rightarrow> reject (settles cb) e s1
         | None \<Rightarrow> resolve (settles cb) (reply_data r) s1)"

definition handleReply :: "process_state \<Rightarrow> client \<Rightarrow> reply \<Rightarrow> client \<times> process_state" where
  "handleReply s this r =
     (if reply_sourceId r = ClusterCacheClient_sourceId
         \<and> reply_clientId r = client_id this
         \<and> pendingRequests this (reply_requestId r) \<noteq> None
      then
        (case pendingRequests this (reply_requestId r) of
           Some cb \<Rightarrow>
             (this\<lparr>pendingRequests := (pendingRequests this)(reply_requestId r := None)\<rparr>,
              run_callback cb r s)
         | None \<Rightarrow> (this, s))
      else (this, s))"

text \<open>The four operations of the client. Each returns the promise stored under \<open>rid\<close>.\<close>

definition ClusterCacheClient_clear ::
  "process_state \<Rightarrow> client \<Rightarrow> string \<Rightarrow> client \<times> process_state" where
  "ClusterCacheClient_clear s this rid =
     (let baseArgs = \<lparr>key = None, namespace = client_namespace this, options = None, val = None\<rparr>
      in ClusterCacheClient_request s this ''clear'' baseArgs rid)"

definition ClusterCacheClient_delete ::
  "process_state \<Rightarrow> client \<Rightarrow> string \<Rightarrow> string \<Rightarrow> client \<times> process_state" where
  "ClusterCacheClient_delete s this k rid =
     (let baseArgs = \<lparr>key = Some k, namespace = client_namespace this, options = None, val = None\<rparr>
      in ClusterCacheClient_request s this ''delete'' baseArgs rid)"

definition ClusterCacheClient_get ::
  "process_state \<Rightarrow> client \<Rightarrow> string \<Rightarrow> request_options option \<Rightarrow> string \<Rightarrow> client \<times> process_state" where
  "ClusterCacheClient_get s this k overrides rid =
     (let baseArgs = \<lparr>key = Some k, namespace = client_namespace this, options = None, val = None\<rparr>
      in case addRequestOptions s this baseArgs overrides of
           (a, s1) \<Rightarrow> ClusterCacheClient_request s1 this ''get'' a rid)"

definition ClusterCacheClient_set ::
  "process_state \<Rightarrow> client \<Rightarrow> string \<Rightarrow> jsval \<Rightarrow> request_options option \<Rightarrow> string
     \<Rightarrow> client \<times> process_state" where
  "ClusterCacheClient_set s this k v overrides rid =
     (let baseArgs = \<lparr>key = Some k, namespace = client_namespace this, options = None, val = Some v\<rparr>
      in case addRequestOptions s this baseArgs overrides of
           (a, s1) \<Rightarrow> ClusterCacheClient_request s1 this ''set'' a rid)"

section \<open>Example states\<close>

text \<open>
  A process that has just loaded the module: no coordinator, no listeners, the static
  configuration at its initial value. A worker has \<open>process.send\<close>, the primary has not.
\<close>

definition fresh_process :: "bool \<Rightarrow> process_state" where
  "fresh_process primary =
     \<lparr>isPrimary = primary, ClusterCache_instance = None, clusterListeners = 0,
      defaultConfig = initial_defaultConfig, processListeners = [], hasSend = (\<not> primary),
      sent = [], warnings = [], timers = Map.empty, promises = Map.empty\<rparr>"

definition max_500 :: lru_options where
  "max_500 = \<lparr>max_opt = 500, maxSize = 0, ttl_opt = 0\<rparr>"

definition max_10 :: lru_options where
  "max_10 = \<lparr>max_opt = 10, maxSize = 0, ttl_opt = 0\<rparr>"

text \<open>The coordinator that \<open>new ClusterCache({max: 500})\<close> makes, with an empty store.\<close>

definition coordinator_500 :: cluster_cache where
  "coordinator_500 =
     \<lparr>cache = \<lparr>entries = [], lru_max = 500, lru_maxSize = 0\<rparr>, cc_logger = ''console'',
      cc_options = max_500\<rparr>"

definition no_overrides :: request_options where
  "no_overrides = \<lparr>allowStale = None, ttl = None, updateAgeOnGet = None, size_opt = None\<rparr>"

text \<open>A client as the constructor makes it in a process with the console as logger.\<close>

definition client_of :: "string \<Rightarrow> string \<Rightarrow> client" where
  "client_of cid ns =
     \<lparr>client_id = cid, client_logger = ''console'', client_namespace = ns,
      pendingRequests = Map.empty\<rparr>"

text \<open>
  \<open>new ClusterCacheClient({namespace: 'users', requestTimeout: 1000})\<close>, and the static
  configuration after it.
\<close>

definition users_config :: config_arg where
  "users_config = empty_config\<lparr>arg_namespace := Some ''users'', arg_requestTimeout := Some 1000\<rparr>"

definition users_defaultConfig :: client_config where
  "users_defaultConfig = initial_defaultConfig\<lparr>cfg_namespace := ''users'', requestTimeout := 1000\<rparr>"

text \<open>
  A worker after \<open>new ClusterCacheClient()\<close> has made the client \<open>c1\<close>, and a worker after
  \<open>new ClusterCacheClient({allowOverrides: true})\<close> has.
\<close>

definition worker_with_client :: process_state where
  "worker_with_client = (fresh_process False)\<lparr>processListeners := [''c1'']\<rparr>"

definition overriding_worker :: process_state where
  "overriding_worker =
     (fresh_process False)\<lparr>defaultConfig := initial_defaultConfig\<lparr>allowOverrides := True\<rparr>,
                            processListeners := [''c1'']\<rparr>"

text \<open>The overrides \<open>{allowStale: true, updateAgeOnGet: false}\<close> of a call of \<open>get\<close>.\<close>

definition stale_overrides :: request_options where
  "stale_overrides = no_overrides\<lparr>allowStale := Some True, updateAgeOnGet := Some False\<rparr>"

text \<open>The client and the worker after \<open>get('k', {allowStale: true, updateAgeOnGet: false})\<close>.\<close>

definition after_override :: "client \<times> process_state" where
  "after_override =
     ClusterCacheClient_get overriding_worker (client_of ''c1'' ''c1'') ''k'' (Some stale_overrides) ''r1''"

text \<open>A request whose failsafe timer fires before any reply has come.\<close>

definition times_out ::
  "process_state \<Rightarrow> client \<Rightarrow> string \<Rightarrow> cacheFnArguments \<Rightarrow> string \<Rightarrow> client \<times> process_state" where
  "times_out s this op a rid =
     (case ClusterCacheClient_request s this op a rid of
        (this1, s1) \<Rightarrow> fire_timeout s1 this1 rid)"

text \<open>The client \<open>c1\<close> calls \<open>get('k')\<close>, the request gets the id \<open>r1\<close>, and its timer fires.\<close>

definition timed_out :: "client \<times> process_state" where
  "timed_out =
     (case ClusterCacheClient_get worker_with_client (client_of ''c1'' ''c1'') ''k'' None ''r1'' of
        (this1, s1) \<Rightarrow> fire_timeout s1 this1 ''r1'')"

text \<open>The coordinator after \<open>set\<close> of key \<open>c\<close> in the namespace \<open>a:b\<close>.\<close>

definition stored_under_a_b :: cluster_cache where
  "stored_under_a_b =
     snd (ClusterCache_set coordinator_500
            \<lparr>key = Some ''c'', namespace = ''a:b'', options = None, val = Some (JNum 1)\<rparr>)"

text \<open>
  The request of that \<open>set\<close>, the primary process right after \<open>new ClusterCache({max:
  500})\<close>, and the same process once its coordinator has handled the request: the static
  \<open>instance\<close> refers to the one coordinator object, whose store now holds the entry.
\<close>

definition set_a_b_request :: request where
  "set_a_b_request =
     \<lparr>args = \<lparr>key = Some ''c'', namespace = ''a:b'', options = None, val = Some (JNum 1)\<rparr>,
      clientId = ''c1'', operation = ''set'', requestId = ''r1'', sourceId = ''cluster-cache''\<rparr>"

definition primary_500 :: process_state where
  "primary_500 =
     (fresh_process True)\<lparr>ClusterCache_instance := Some coordinator_500, clusterListeners := 1\<rparr>"

definition primary_with_entry :: process_state where
  "primary_with_entry =
     (fresh_process True)\<lparr>ClusterCache_instance := Some stored_under_a_b, clusterListeners := 1\<rparr>"

text \<open>A request with an operation that is none of the four.\<close>

definition purge_request :: request where
  "purge_request =
     \<lparr>args = \<lparr>key = Some ''k'', namespace = ''n'', options = None, val = None\<rparr>,
      clientId = ''c1'', operation = ''purge'', requestId = ''r1'', sourceId = ''cluster-cache''\<rparr>"

section \<open>Properties of the store\<close>

lemma lru_has_iff: "lru_has c k \<longleftrightarrow> k \<in> fst ` set (entries c)"
  by (force simp: lru_has_def find_None_iff image_iff)

lemma lru_get_miss: "\<not> lru_has c k \<Longrightarrow> lru_get c k opts = (None, c)"
  by (auto simp add: lru_has_def lru_get_def split: option.splits)

text \<open>Eviction only removes entries.\<close>

lemma set_evict_to_fit: "set (evict_to_fit b es) \<subseteq> set es"
proof (induction b es rule: evict_to_fit.induct)
  case (1 budget es)
  show ?case
  proof (cases "es \<noteq> [] \<and> budget < total_size es")
    case True
    then have "set (evict_to_fit budget (butlast es)) \<subseteq> set (butlast es)"
      using "1.IH" by simp
    moreover have "set (butlast es) \<subseteq> set es"
      by (auto dest: in_set_butlastD)
    moreover have "evict_to_fit budget es = evict_to_fit budget (butlast es)"
      using True by (subst evict_to_fit.simps) simp
    ultimately show ?thesis by auto
  next
    case False
    then show ?thesis by (subst evict_to_fit.simps) auto
  qed
qed

text \<open>A \<open>set\<close> that returns adds no key but its own.\<close>

lemma lru_set_keys:
  assumes "lru_set c k v opts = Inr c'"
  shows "fst ` set (entries c') \<subseteq> insert k (fst ` set (entries c))"
proof (cases v)
  case None
  with assms show ?thesis by (auto simp: lru_set_def lru_delete_def)
next
  case (Some x)
  define sz where "sz = (case opts of None \<Rightarrow> 0 | Some p \<Rightarrow> (case size_opt p of None \<Rightarrow> 0 | Some n \<Rightarrow> n))"
  define others where "others = filter (\<lambda>e. fst e \<noteq> k) (entries c)"
  define counted where
    "counted = (if 0 < lru_max c \<and> lru_max c \<le> length others then butlast others else others)"
  define sized where
    "sized = (if 0 < lru_maxSize c then evict_to_fit (lru_maxSize c - sz) counted else counted)"
  have "set sized \<subseteq> set counted"
    by (simp add: sized_def set_evict_to_fit)
  moreover have "set counted \<subseteq> set others"
    by (auto simp: counted_def dest: in_set_butlastD)
  moreover have "set others \<subseteq> set (entries c)"
    by (auto simp: others_def)
  ultimately have sub: "set sized \<subseteq> set (entries c)"
    by blast
  have "c' = lru_delete c k
        \<or> c' = c\<lparr>entries := (k, x, (if 0 < lru_maxSize c then sz else 0)) # sized\<rparr>"
    using assms Some
    by (auto simp add: lru_set_def Let_def sz_def others_def counted_def sized_def split: if_splits)
  then show ?thesis
  proof
    assume "c' = lru_delete c k"
    then show ?thesis by (auto simp: lru_delete_def)
  next
    assume "c' = c\<lparr>entries := (k, x, (if 0 < lru_maxSize c then sz else 0)) # sized\<rparr>"
    then show ?thesis using sub by auto
  qed
qed

lemma lru_set_other_absent:
  assumes "lru_set c k v opts = Inr c'" and "k' \<noteq> k" and "\<not> lru_has c k'"
  shows "\<not> lru_has c' k'"
  using lru_set_keys[OF assms(1)] assms(2,3) by (auto simp: lru_has_iff)

section \<open>The namespace key codec\<close>

lemma applyNamespace_same_key:
  "applyNamespace n1 k = applyNamespace n2 k \<longleftrightarrow> n1 = n2"
  by (simp add: applyNamespace_def)

lemma startsWith_iff: "startsWith s p \<longleftrightarrow> take (length p) s = p"
  by (induction s p rule: startsWith.induct) auto

lemma applyNamespace_startsWith: "startsWith (applyNamespace ns k) (ns @ '':'')"
  by (simp add: startsWith_iff applyNamespace_def)

text \<open>
  Where no namespace holds the separator, the composite key determines the namespace and
  the key.
\<close>

lemma applyNamespace_inj_without_separator:
  assumes "CHR '':'' \<notin> set n1" and "CHR '':'' \<notin> set n2"
    and "applyNamespace n1 (Some k1) = applyNamespace n2 (Some k2)"
  shows "n1 = n2 \<and> k1 = k2"
  using assms
proof (induction n1 arbitrary: n2)
  case Nil
  then show ?case by (cases n2) (auto simp: applyNamespace_def)
next
  case (Cons c cs)
  then show ?case by (cases n2) (auto simp: applyNamespace_def)
qed

text \<open>
  Claim C3 says that the codec is injective, and that the pairs (\<open>a\<close>, \<open>b:c\<close>) and
  (\<open>a:b\<close>, \<open>c\<close>) have distinct composite keys. The code joins namespace and key with a
  colon and escapes nothing: the two pairs are distinct and have the same composite key
  \<open>a:b:c\<close>.
\<close>

theorem applyNamespace_collision:
  "(''a'', Some ''b:c'') \<noteq> (''a:b'', Some ''c'')
   \<and> applyNamespace ''a'' (Some ''b:c'') = ''a:b:c''
   \<and> applyNamespace ''a:b'' (Some ''c'') = ''a:b:c''"
  by (simp add: applyNamespace_def)

section \<open>Namespaces in the store\<close>

text \<open>
  Claim C5: for namespaces \<open>n1 \<noteq> n2\<close> and a key \<open>k\<close>, when the store holds no entry for
  \<open>k\<close> under \<open>n2\<close>, \<open>set(k, v)\<close> under \<open>n1\<close> followed by \<open>get(k)\<close> under \<open>n2\<close> is a miss,
  whatever the options of the two calls are and whether the store accepts the value or
  rejects it.
\<close>

theorem set_then_get_other_namespace:
  assumes "n1 \<noteq> n2"
    and "\<not> lru_has (cache this) (applyNamespace n2 (Some k))"
  shows "fst (ClusterCache_get
               (snd (ClusterCache_set this \<lparr>key = Some k, namespace = n1, options = so, val = Some v\<rparr>))
               \<lparr>key = Some k, namespace = n2, options = go, val = None\<rparr>) = Inr None"
proof -
  let ?k1 = "applyNamespace n1 (Some k)" and ?k2 = "applyNamespace n2 (Some k)"
  let ?this' = "snd (ClusterCache_set this \<lparr>key = Some k, namespace = n1, options = so, val = Some v\<rparr>)"
  have ne: "?k2 \<noteq> ?k1"
    using assms(1) by (simp add: applyNamespace_same_key)
  have "\<not> lru_has (cache ?this') ?k2"
  proof (cases "lru_set (cache this) ?k1 (Some v) so")
    case (Inl e)
    then show ?thesis using assms(2) by (simp add: ClusterCache_set_def)
  next
    case (Inr c')
    then show ?thesis
      using lru_set_other_absent[OF Inr ne assms(2)] by (simp add: ClusterCache_set_def)
  qed
  then show ?thesis
    by (simp add: ClusterCache_get_def lru_get_miss)
qed

theorem set_then_get_other_namespace_witness:
  "''users'' \<noteq> ''orders''
   \<and> \<not> lru_has (cache coordinator_500) (applyNamespace ''orders'' (Some ''42''))
   \<and> fst (ClusterCache_get
            (snd (ClusterCache_set coordinator_500
                    \<lparr>key = Some ''42'', namespace = ''users'', options = None, val = Some (JStr ''Ada'')\<rparr>))
            \<lparr>key = Some ''42'', namespace = ''orders'', options = None, val = None\<rparr>) = Inr None
   \<and> fst (ClusterCache_get
            (snd (ClusterCache_set coordinator_500
                    \<lparr>key = Some ''42'', namespace = ''users'', options = None, val = Some (JStr ''Ada'')\<rparr>))
            \<lparr>key = Some ''42'', namespace = ''users'', options = None, val = None\<rparr>)
       = Inr (Some (JStr ''Ada''))"
proof -
  have h1: "''users'' \<noteq> ''orders''" by simp
  have h2: "\<not> lru_has (cache coordinator_500) (applyNamespace ''orders'' (Some ''42''))"
    by (simp add: coordinator_500_def lru_has_def)
  have hit: "fst (ClusterCache_get
            (snd (ClusterCache_set coordinator_500
                    \<lparr>key = Some ''42'', namespace = ''users'', options = None, val = Some (JStr ''Ada'')\<rparr>))
            \<lparr>key = Some ''42'', namespace = ''users'', options = None, val = None\<rparr>)
       = Inr (Some (JStr ''Ada''))"
    by (simp add: coordinator_500_def ClusterCache_set_def ClusterCache_get_def lru_set_def lru_get_def
        applyNamespace_def)
  show ?thesis
    using h1 h2 hit set_then_get_other_namespace [OF h1 h2, of None "JStr ''Ada''" None] by simp
qed

text \<open>
  \<open>clear\<close> returns \<open>OK\<close> and deletes exactly the entries whose composite key starts with
  the namespace and the separator.
\<close>

lemma fold_clear:
  "fold (\<lambda>e acc. if lru_has acc (fst e)
                  then (if startsWith (fst e) pre then lru_delete acc (fst e) else acc)
                  else acc) xs acc
   = acc\<lparr>entries := filter (\<lambda>e. \<not> (startsWith (fst e) pre \<and> fst e \<in> fst ` set xs)) (entries acc)\<rparr>"
proof (induction xs arbitrary: acc)
  case Nil
  then show ?case by simp
next
  case (Cons x xs)
  show ?case
  proof (cases "lru_has acc (fst x) \<and> startsWith (fst x) pre")
    case True
    have "filter (\<lambda>e. \<not> (startsWith (fst e) pre \<and> fst e \<in> fst ` set xs))
            (filter (\<lambda>e. fst e \<noteq> fst x) (entries acc))
        = filter (\<lambda>e. \<not> (startsWith (fst e) pre \<and> fst e \<in> fst ` set (x # xs))) (entries acc)"
      unfolding filter_filter using True by (intro filter_cong) auto
    with True show ?thesis
      by (simp add: Cons.IH lru_delete_def)
  next
    case False
    have "filter (\<lambda>e. \<not> (startsWith (fst e) pre \<and> fst e \<in> fst ` set (x # xs))) (entries acc)
        = filter (\<lambda>e. \<not> (startsWith (fst e) pre \<and> fst e \<in> fst ` set xs)) (entries acc)"
      using False by (intro filter_cong) (force simp: lru_has_iff)+
    with False show ?thesis
      by (auto simp add: Cons.IH)
  qed
qed

lemma ClusterCache_clear_eq:
  "ClusterCache_clear this a =
     (Inr (Some OK),
      this\<lparr>cache := (cache this)\<lparr>entries :=
         filter (\<lambda>e. \<not> startsWith (fst e) (namespace a @ '':'')) (entries (cache this))\<rparr>\<rparr>)"
proof -
  have "filter (\<lambda>e. \<not> (startsWith (fst e) (namespace a @ '':'')
                       \<and> fst e \<in> fst ` set (entries (cache this)))) (entries (cache this))
      = filter (\<lambda>e. \<not> startsWith (fst e) (namespace a @ '':'')) (entries (cache this))"
    by (intro filter_cong) auto
  then show ?thesis
    by (simp add: ClusterCache_clear_def lru_forEach_def fold_clear applyNamespace_def)
qed

text \<open>
  Between two distinct namespaces that do not hold the separator, \<open>clear\<close> of the one
  leaves the entries of the other as they are.
\<close>

lemma other_namespace_not_prefixed:
  assumes "CHR '':'' \<notin> set n2" and "CHR '':'' \<notin> set ns" and "n2 \<noteq> ns"
  shows "\<not> startsWith (applyNamespace n2 k) (ns @ '':'')"
  using assms
proof (induction n2 arbitrary: ns)
  case Nil
  then show ?case by (cases ns) (auto simp: applyNamespace_def)
next
  case (Cons c cs)
  show ?case
  proof (cases ns)
    case Nil
    with Cons.prems show ?thesis by (auto simp: applyNamespace_def)
  next
    case (Cons d ds)
    with Cons.prems Cons.IH[of ds] show ?thesis
      by (auto simp: applyNamespace_def)
  qed
qed

lemma clear_keeps_other_namespace:
  assumes "CHR '':'' \<notin> set n2" and "CHR '':'' \<notin> set ns" and "n2 \<noteq> ns"
    and "namespace a = ns"
  shows "find (\<lambda>e. fst e = applyNamespace n2 k) (entries (cache (snd (ClusterCache_clear this a))))
       = find (\<lambda>e. fst e = applyNamespace n2 k) (entries (cache this))"
proof -
  have "\<not> startsWith (applyNamespace n2 k) (ns @ '':'')"
    using assms(1-3) by (rule other_namespace_not_prefixed)
  then have "find (\<lambda>e. fst e = applyNamespace n2 k) (filter (\<lambda>e. \<not> startsWith (fst e) (ns @ '':'')) xs)
           = find (\<lambda>e. fst e = applyNamespace n2 k) xs" for xs :: "(string \<times> jsval \<times> nat) list"
    by (induction xs) auto
  then show ?thesis
    by (simp add: ClusterCache_clear_eq assms(4))
qed

text \<open>
  Claim C4 says that \<open>clear(ns)\<close> deletes exactly the entries whose composite key starts
  with \<open>ns:\<close>, returns the acknowledgment, and leaves every entry of any other namespace
  unchanged. The last part fails for a namespace that itself starts with \<open>ns:\<close>: the entry
  stored under the namespace \<open>a:b\<close> with key \<open>c\<close> is there before \<open>clear\<close> of the
  namespace \<open>a\<close> and gone after it.
\<close>

theorem clear_deletes_other_namespace:
  "''a'' \<noteq> ''a:b''
   \<and> fst (ClusterCache_get stored_under_a_b
            \<lparr>key = Some ''c'', namespace = ''a:b'', options = None, val = None\<rparr>)
       = Inr (Some (JNum 1))
   \<and> fst (ClusterCache_get
            (snd (ClusterCache_clear stored_under_a_b
                    \<lparr>key = None, namespace = ''a'', options = None, val = None\<rparr>))
            \<lparr>key = Some ''c'', namespace = ''a:b'', options = None, val = None\<rparr>) = Inr None"
proof -
  have s: "stored_under_a_b
           = coordinator_500\<lparr>cache := \<lparr>entries = [(''a:b:c'', JNum 1, 0)], lru_max = 500, lru_maxSize = 0\<rparr>\<rparr>"
    by (simp add: stored_under_a_b_def coordinator_500_def ClusterCache_set_def lru_set_def
        applyNamespace_def)
  show ?thesis
    by (simp add: s ClusterCache_clear_eq ClusterCache_get_def lru_get_def applyNamespace_def
        coordinator_500_def)
qed

section \<open>Dispatch\<close>

text \<open>
  For the four operations \<open>handleRequest\<close> sends one reply to the worker the request came
  from, with the identifiers of the request and with \<open>data\<close> or \<open>error\<close>: what the cache
  function throws is caught.
\<close>

lemma handleRequest_known:
  assumes "operation req \<in> {''clear'', ''delete'', ''get'', ''set''}"
  shows "\<exists>r. fst (handleRequest this w req) = Inr (w, r)
           \<and> reply_clientId r = clientId req \<and> reply_requestId r = requestId req
           \<and> reply_sourceId r = sourceId req
           \<and> (reply_data r = None \<or> reply_error r = None)"
proof -
  obtain f where f: "getCacheFn (operation req) = Inr f"
    using assms by (auto simp: getCacheFn_def)
  obtain res this' where r: "f this (args req) = (res, this')"
    by (cases "f this (args req)")
  show ?thesis
    by (cases res) (simp_all add: handleRequest_def f r reply_to_def)
qed

text \<open>For any other operation the \<open>TypeError\<close> of \<open>getCacheFn\<close> leaves \<open>handleRequest\<close>.\<close>

lemma handleRequest_unknown:
  assumes "operation req \<noteq> ''clear''" and "operation req \<noteq> ''delete''"
    and "operation req \<noteq> ''get''" and "operation req \<noteq> ''set''"
  shows "handleRequest this w req
         = (Inl (TypeError ([CHR 0x27] @ operation req @ [CHR 0x27]
                            @ '' is not a recognized cluster cache operation.'')), this)"
  using assms by (simp add: handleRequest_def getCacheFn_def)

text \<open>
  Claim C2 says that for a request whose operation is none of \<open>get\<close>, \<open>set\<close>, \<open>delete\<close>
  and \<open>clear\<close> the dispatch catches the error and sends the worker a reply with its
  \<open>error\<close> set, and that no exception leaves the dispatch. In the code the call of
  \<open>getCacheFn\<close> stands before the \<open>try\<close> block: for the operation \<open>purge\<close> the
  \<open>TypeError\<close> leaves \<open>handleRequest\<close> and no reply is sent.
\<close>

theorem unknown_operation_escapes:
  "handleRequest coordinator_500 1 purge_request
   = (Inl (TypeError ([CHR 0x27] @ ''purge'' @ [CHR 0x27]
                      @ '' is not a recognized cluster cache operation.'')), coordinator_500)"
  by (simp add: handleRequest_def getCacheFn_def purge_request_def)

section \<open>Construction\<close>

text \<open>A construction that returns an instance leaves that instance in the static.\<close>

lemma ClusterCache_constructor_sets_instance:
  assumes "ClusterCache_constructor s opts lg = (Inr i, s1)"
  shows "ClusterCache_instance s1 = Some i"
  using assms
  by (auto simp: ClusterCache_constructor_def Let_def split: option.splits if_splits sum.splits)

lemma first_construction:
  "ClusterCache_constructor (fresh_process True) max_500 ''console'' = (Inr coordinator_500, primary_500)"
  by (simp add: ClusterCache_constructor_def fresh_process_def max_500_def new_LRUCache_def
      coordinator_500_def primary_500_def Let_def)

text \<open>The coordinator of \<open>primary_500\<close> handles the \<open>set\<close> and holds the entry afterwards.\<close>

lemma stored_under_a_b_eq:
  "stored_under_a_b
   = coordinator_500\<lparr>cache := \<lparr>entries = [(''a:b:c'', JNum 1, 0)], lru_max = 500, lru_maxSize = 0\<rparr>\<rparr>"
  by (simp add: stored_under_a_b_def coordinator_500_def ClusterCache_set_def lru_set_def
      applyNamespace_def)

lemma handleRequest_set_a_b:
  "handleRequest coordinator_500 1 set_a_b_request
   = (Inr (1, \<lparr>reply_clientId = ''c1'', reply_data = Some OK, reply_error = None,
                reply_requestId = ''r1'', reply_sourceId = ''cluster-cache''\<rparr>),
      stored_under_a_b)"
  by (simp add: handleRequest_def getCacheFn_def set_a_b_request_def reply_to_def
      stored_under_a_b_eq coordinator_500_def ClusterCache_set_def lru_set_def applyNamespace_def)

text \<open>
  Claim C8: a construction of the coordinator that returns an instance leaves it in the
  static \<open>instance\<close>; and in every state of the process in which the static holds an
  instance, whatever its store holds by then, a construction with whatever options and
  logger returns that very instance and leaves the state of the process as it is: the
  instance with its options and its store, and the registered listeners.
\<close>

theorem construction_returns_existing_instance:
  "(ClusterCache_constructor s0 opts1 lg1 = (Inr first, s1) \<longrightarrow> ClusterCache_instance s1 = Some first)
   \<and> (ClusterCache_instance s = Some existing \<longrightarrow>
        ClusterCache_constructor s opts2 lg2 = (Inr existing, s))"
proof (intro conjI impI)
  assume "ClusterCache_constructor s0 opts1 lg1 = (Inr first, s1)"
  then show "ClusterCache_instance s1 = Some first"
    by (rule ClusterCache_constructor_sets_instance)
next
  assume "ClusterCache_instance s = Some existing"
  then show "ClusterCache_constructor s opts2 lg2 = (Inr existing, s)"
    by (simp add: ClusterCache_constructor_def)
qed

theorem construction_returns_existing_instance_witness:
  "ClusterCache_constructor (fresh_process True) max_500 ''console'' = (Inr coordinator_500, primary_500)
   \<and> ClusterCache_instance primary_500 = Some coordinator_500
   \<and> ClusterCache_constructor primary_500 max_10 ''other logger'' = (Inr coordinator_500, primary_500)
   \<and> ClusterCache_instance primary_with_entry = Some stored_under_a_b
   \<and> ClusterCache_constructor primary_with_entry max_10 ''other logger''
       = (Inr stored_under_a_b, primary_with_entry)
   \<and> entries (cache stored_under_a_b) = [(''a:b:c'', JNum 1, 0)]
   \<and> cc_options stored_under_a_b = max_500
   \<and> max_500 \<noteq> max_10"
proof -
  have i: "ClusterCache_instance primary_500 = Some coordinator_500"
    using construction_returns_existing_instance
            [of "fresh_process True" max_500 "''console''" coordinator_500 primary_500]
      first_construction
    by blast
  have a: "ClusterCache_constructor primary_500 max_10 ''other logger'' = (Inr coordinator_500, primary_500)"
    using construction_returns_existing_instance
            [of _ _ _ _ _ primary_500 coordinator_500 max_10 "''other logger''"] i
    by blast
  have j: "ClusterCache_instance primary_with_entry = Some stored_under_a_b"
    by (simp add: primary_with_entry_def)
  have b: "ClusterCache_constructor primary_with_entry max_10 ''other logger''
           = (Inr stored_under_a_b, primary_with_entry)"
    using construction_returns_existing_instance
            [of _ _ _ _ _ primary_with_entry stored_under_a_b max_10 "''other logger''"] j
    by blast
  have e: "entries (cache stored_under_a_b) = [(''a:b:c'', JNum 1, 0)]"
    by (simp add: stored_under_a_b_eq)
  have o: "cc_options stored_under_a_b = max_500"
    by (simp add: stored_under_a_b_eq coordinator_500_def)
  have n: "max_500 \<noteq> max_10"
    by (simp add: max_500_def max_10_def)
  show ?thesis
    using first_construction i a j b e o n by blast
qed

text \<open>
  Claim C9: a first construction of the coordinator in a process that is not the primary
  throws the error of the wrong role and leaves the state of the process as it is, and a
  construction of a client in the primary process throws the error of the wrong role and
  leaves the state as it is.
\<close>

theorem construction_in_wrong_role:
  "(ClusterCache_instance s = None \<and> \<not> isPrimary s \<longrightarrow>
      ClusterCache_constructor s opts lg
        = (Inl (Error ''A shared cache may only be initialized on the primary process.''), s))
   \<and> (isPrimary s \<longrightarrow>
      ClusterCacheClient_constructor s cfg newId
        = (Inl (Error (''Cluster cache client may not be initialized in the cluster''
                        @ [CHR 0x27] @ ''s primary process.'')), s))"
  by (simp add: ClusterCache_constructor_def ClusterCacheClient_constructor_def)

theorem construction_in_wrong_role_witness:
  "ClusterCache_instance (fresh_process False) = None \<and> \<not> isPrimary (fresh_process False)
   \<and> ClusterCache_constructor (fresh_process False) max_500 ''console''
        = (Inl (Error ''A shared cache may only be initialized on the primary process.''),
           fresh_process False)
   \<and> isPrimary (fresh_process True)
   \<and> ClusterCacheClient_constructor (fresh_process True) empty_config ''c1''
        = (Inl (Error (''Cluster cache client may not be initialized in the cluster''
                        @ [CHR 0x27] @ ''s primary process.'')), fresh_process True)"
proof -
  have a: "ClusterCache_instance (fresh_process False) = None \<and> \<not> isPrimary (fresh_process False)"
    by (simp add: fresh_process_def)
  have b: "isPrimary (fresh_process True)"
    by (simp add: fresh_process_def)
  show ?thesis
    using a b
      construction_in_wrong_role [of "fresh_process False" max_500 "''console''" empty_config "''c1''"]
      construction_in_wrong_role [of "fresh_process True" max_500 "''console''" empty_config "''c1''"]
    by blast
qed

section \<open>The configuration of a client\<close>

lemma merge_config_empty: "merge_config d empty_config = d"
  by (simp add: merge_config_def empty_config_def merge_options_def)

text \<open>The constructor in a worker process, as one equation.\<close>

lemma ClusterCacheClient_constructor_worker:
  assumes "\<not> isPrimary s"
  shows "ClusterCacheClient_constructor s cfg newId
           = (Inr \<lparr>client_id = newId,
                   client_logger = cfg_logger (merge_config (defaultConfig s) cfg),
                   client_namespace =
                     (if cfg_namespace (merge_config (defaultConfig s) cfg) = '''' then newId
                      else cfg_namespace (merge_config (defaultConfig s) cfg)),
                   pendingRequests = Map.empty\<rparr>,
              s\<lparr>defaultConfig := merge_config (defaultConfig s) cfg,
                processListeners := processListeners s @ [newId]\<rparr>)"
  using assms by (simp add: ClusterCacheClient_constructor_def Let_def config_def)

lemma merge_users: "merge_config initial_defaultConfig users_config = users_defaultConfig"
  by (simp add: merge_config_def users_config_def users_defaultConfig_def initial_defaultConfig_def
      empty_config_def merge_options_def)

lemma first_client:
  "ClusterCacheClient_constructor (fresh_process False) users_config ''id1''
   = (Inr (client_of ''id1'' ''users''),
      (fresh_process False)\<lparr>defaultConfig := users_defaultConfig, processListeners := [''id1'']\<rparr>)"
proof -
  have w: "\<not> isPrimary (fresh_process False)" by (simp add: fresh_process_def)
  have d: "defaultConfig (fresh_process False) = initial_defaultConfig"
    by (simp add: fresh_process_def)
  have l: "processListeners (fresh_process False) = []"
    by (simp add: fresh_process_def)
  show ?thesis
    unfolding ClusterCacheClient_constructor_worker[OF w] d l merge_users
    by (simp add: users_defaultConfig_def client_of_def initial_defaultConfig_def)
qed

lemma second_client:
  "ClusterCacheClient_constructor
      ((fresh_process False)\<lparr>defaultConfig := users_defaultConfig, processListeners := [''id1'']\<rparr>)
      empty_config ''id2''
   = (Inr (client_of ''id2'' ''users''),
      (fresh_process False)\<lparr>defaultConfig := users_defaultConfig,
                             processListeners := [''id1'', ''id2'']\<rparr>)"
proof -
  let ?s = "(fresh_process False)\<lparr>defaultConfig := users_defaultConfig, processListeners := [''id1'']\<rparr>"
  have w: "\<not> isPrimary ?s" by (simp add: fresh_process_def)
  show ?thesis
    unfolding ClusterCacheClient_constructor_worker[OF w] merge_config_empty
    by (simp add: users_defaultConfig_def client_of_def initial_defaultConfig_def)
qed

text \<open>
  Claim C10: in a worker process, constructing a client with a configuration \<open>c\<close> leaves
  the static \<open>defaultConfig\<close> equal to the merge of its former value with \<open>c\<close>. A client
  constructed afterwards with a configuration \<open>c2\<close> has the merge of that value with
  \<open>c2\<close> as its configuration, so what \<open>c2\<close> does not give comes from the earlier client and
  not from the documented defaults, its namespace included; with the configuration
  omitted, the configuration is the one the earlier client left.
\<close>

theorem constructor_changes_defaultConfig:
  assumes "\<not> isPrimary s"
    and "ClusterCacheClient_constructor s c id1 = (r1, s1)"
    and "ClusterCacheClient_constructor s1 c2 id2 = (r2, s2)"
  shows "defaultConfig s1 = merge_config (defaultConfig s) c
         \<and> (\<exists>this2. r2 = Inr this2
              \<and> config s2 this2 = merge_config (merge_config (defaultConfig s) c) c2
              \<and> client_namespace this2 =
                  (if cfg_namespace (config s2 this2) = '''' then id2
                   else cfg_namespace (config s2 this2)))
         \<and> (c2 = empty_config \<longrightarrow> defaultConfig s2 = merge_config (defaultConfig s) c)"
proof -
  have s1: "s1 = s\<lparr>defaultConfig := merge_config (defaultConfig s) c,
                    processListeners := processListeners s @ [id1]\<rparr>"
    using assms(2) by (simp add: ClusterCacheClient_constructor_worker[OF assms(1)])
  have d1: "defaultConfig s1 = merge_config (defaultConfig s) c"
    by (simp add: s1)
  have w1: "\<not> isPrimary s1"
    using assms(1) by (simp add: s1)
  have s2: "s2 = s1\<lparr>defaultConfig := merge_config (defaultConfig s1) c2,
                    processListeners := processListeners s1 @ [id2]\<rparr>"
    using assms(3) by (simp add: ClusterCacheClient_constructor_worker[OF w1])
  have d2: "defaultConfig s2 = merge_config (merge_config (defaultConfig s) c) c2"
    by (simp add: s2 d1)
  have r2: "r2 = Inr \<lparr>client_id = id2,
                      client_logger = cfg_logger (defaultConfig s2),
                      client_namespace =
                        (if cfg_namespace (defaultConfig s2) = '''' then id2
                         else cfg_namespace (defaultConfig s2)),
                      pendingRequests = Map.empty\<rparr>"
    using assms(3) unfolding ClusterCacheClient_constructor_worker[OF w1]
    by (auto simp: s2)
  show ?thesis
    by (simp add: d1 d2 r2 config_def merge_config_empty)
qed

theorem constructor_changes_defaultConfig_witness:
  "\<not> isPrimary (fresh_process False)
   \<and> defaultConfig (fresh_process False) = initial_defaultConfig
   \<and> ClusterCacheClient_constructor (fresh_process False) users_config ''id1''
       = (Inr (client_of ''id1'' ''users''),
          (fresh_process False)\<lparr>defaultConfig := users_defaultConfig, processListeners := [''id1'']\<rparr>)
   \<and> ClusterCacheClient_constructor
        ((fresh_process False)\<lparr>defaultConfig := users_defaultConfig, processListeners := [''id1'']\<rparr>)
        empty_config ''id2''
       = (Inr (client_of ''id2'' ''users''),
          (fresh_process False)\<lparr>defaultConfig := users_defaultConfig,
                                 processListeners := [''id1'', ''id2'']\<rparr>)
   \<and> defaultConfig ((fresh_process False)\<lparr>defaultConfig := users_defaultConfig,
                                           processListeners := [''id1'', ''id2'']\<rparr>)
       = merge_config initial_defaultConfig users_config
   \<and> cfg_namespace (merge_config initial_defaultConfig users_config) = ''users''
   \<and> requestTimeout (merge_config initial_defaultConfig users_config) = 1000
   \<and> cfg_namespace initial_defaultConfig = ''''
   \<and> requestTimeout initial_defaultConfig = 300"
proof -
  have w: "\<not> isPrimary (fresh_process False)" by (simp add: fresh_process_def)
  have d: "defaultConfig (fresh_process False) = initial_defaultConfig"
    by (simp add: fresh_process_def)
  have m1: "cfg_namespace (merge_config initial_defaultConfig users_config) = ''users''
     \<and> requestTimeout (merge_config initial_defaultConfig users_config) = 1000"
    unfolding merge_users by (simp add: users_defaultConfig_def)
  have m2: "cfg_namespace initial_defaultConfig = '''' \<and> requestTimeout initial_defaultConfig = 300"
    by (simp add: initial_defaultConfig_def)
  from constructor_changes_defaultConfig [OF w first_client second_client]
  have "defaultConfig ((fresh_process False)\<lparr>defaultConfig := users_defaultConfig,
                                             processListeners := [''id1'', ''id2'']\<rparr>)
       = merge_config initial_defaultConfig users_config"
    by (simp add: d)
  then show ?thesis
    using w d m1 m2 first_client second_client by blast
qed

section \<open>Option overrides\<close>

lemma addRequestOptions_refused:
  assumes "\<not> allowOverrides (config s this)"
  shows "addRequestOptions s this a (Some ov)
         = (a, s\<lparr>warnings := warnings s @ [(client_logger this, overrides_warning)]\<rparr>)"
  using assms by (simp add: addRequestOptions_def)

lemma addRequestOptions_no_overrides:
  "addRequestOptions s this a None = (a\<lparr>options := Some (requestOptions (config s this))\<rparr>, s)"
  by (simp add: addRequestOptions_def merge_options_def config_def)

lemma addRequestOptions_allowed:
  assumes "allowOverrides (config s this)"
  shows "addRequestOptions s this a (Some ov)
         = (a\<lparr>options := Some (merge_options (requestOptions (config s this)) (Some ov))\<rparr>,
            s\<lparr>defaultConfig := (defaultConfig s)
                 \<lparr>requestOptions := merge_options (requestOptions (config s this)) (Some ov)\<rparr>\<rparr>)"
  using assms by (simp add: addRequestOptions_def Let_def)

lemma sent_request:
  "sent (snd (ClusterCacheClient_request s this op a rid))
   = (if hasSend s
      then sent s @ [\<lparr>args = a, clientId = client_id this, operation = op, requestId = rid,
                      sourceId = ClusterCacheClient_sourceId\<rparr>]
      else sent s)"
  by (simp add: ClusterCacheClient_request_def Let_def)

lemma request_defaultConfig:
  "defaultConfig (snd (ClusterCacheClient_request s this op a rid)) = defaultConfig s"
  by (simp add: ClusterCacheClient_request_def Let_def)

lemma request_warnings:
  "warnings (snd (ClusterCacheClient_request s this op a rid)) = warnings s"
  by (simp add: ClusterCacheClient_request_def Let_def)

lemma request_hasSend:
  "hasSend (snd (ClusterCacheClient_request s this op a rid)) = hasSend s"
  by (simp add: ClusterCacheClient_request_def Let_def)

lemma request_client:
  "fst (ClusterCacheClient_request s this op a rid)
   = this\<lparr>pendingRequests := (pendingRequests this)(rid \<mapsto> Callback rid rid)\<rparr>"
  by (simp add: ClusterCacheClient_request_def Let_def)

lemma worker_client_constructed:
  "ClusterCacheClient_constructor (fresh_process False) empty_config ''c1''
   = (Inr (client_of ''c1'' ''c1''), worker_with_client)"
proof -
  have w: "\<not> isPrimary (fresh_process False)" by (simp add: fresh_process_def)
  show ?thesis
    unfolding ClusterCacheClient_constructor_worker[OF w] merge_config_empty
    by (simp add: fresh_process_def worker_with_client_def client_of_def initial_defaultConfig_def)
qed

lemma overriding_worker_constructed:
  "ClusterCacheClient_constructor (fresh_process False)
      (empty_config\<lparr>arg_allowOverrides := Some True\<rparr>) ''c1''
   = (Inr (client_of ''c1'' ''c1''), overriding_worker)"
proof -
  have w: "\<not> isPrimary (fresh_process False)" by (simp add: fresh_process_def)
  have m: "merge_config initial_defaultConfig (empty_config\<lparr>arg_allowOverrides := Some True\<rparr>)
           = initial_defaultConfig\<lparr>allowOverrides := True\<rparr>"
    by (simp add: merge_config_def empty_config_def merge_options_def initial_defaultConfig_def)
  have d: "defaultConfig (fresh_process False) = initial_defaultConfig"
    by (simp add: fresh_process_def)
  show ?thesis
    unfolding ClusterCacheClient_constructor_worker[OF w] d m
    by (simp add: fresh_process_def overriding_worker_def client_of_def initial_defaultConfig_def)
qed

text \<open>
  With \<open>allowOverrides\<close> false, \<open>get\<close> and \<open>set\<close> with overrides log the warning and
  make the request with the base arguments, which have no options.
\<close>

lemma get_refused_overrides:
  assumes "\<not> allowOverrides (config s this)"
  shows "ClusterCacheClient_get s this k (Some ov) rid
         = ClusterCacheClient_request
             (s\<lparr>warnings := warnings s @ [(client_logger this, overrides_warning)]\<rparr>) this ''get''
             \<lparr>key = Some k, namespace = client_namespace this, options = None, val = None\<rparr> rid"
  unfolding ClusterCacheClient_get_def Let_def addRequestOptions_refused[OF assms] by simp

lemma set_refused_overrides:
  assumes "\<not> allowOverrides (config s this)"
  shows "ClusterCacheClient_set s this k v (Some ov) rid
         = ClusterCacheClient_request
             (s\<lparr>warnings := warnings s @ [(client_logger this, overrides_warning)]\<rparr>) this ''set''
             \<lparr>key = Some k, namespace = client_namespace this, options = None, val = Some v\<rparr> rid"
  unfolding ClusterCacheClient_set_def Let_def addRequestOptions_refused[OF assms] by simp

text \<open>
  Claim C6 says that with \<open>allowOverrides\<close> false a call with overrides logs a warning,
  does not fail, and makes the request with the configured default request options. The
  code logs the warning and returns the arguments as they came, so the request carries no
  options at all, where the same call without overrides carries the configured
  \<open>requestOptions\<close>.
\<close>

theorem refused_overrides_send_no_options:
  "\<not> allowOverrides (config worker_with_client (client_of ''c1'' ''c1''))
   \<and> requestOptions (config worker_with_client (client_of ''c1'' ''c1''))
       = \<lparr>allowStale = Some False, ttl = Some 300000, updateAgeOnGet = Some True, size_opt = None\<rparr>
   \<and> sent (snd (ClusterCacheClient_get worker_with_client (client_of ''c1'' ''c1'') ''k''
                  (Some stale_overrides) ''r1''))
       = [\<lparr>args = \<lparr>key = Some ''k'', namespace = ''c1'', options = None, val = None\<rparr>,
           clientId = ''c1'', operation = ''get'', requestId = ''r1'', sourceId = ''cluster-cache''\<rparr>]
   \<and> warnings (snd (ClusterCacheClient_get worker_with_client (client_of ''c1'' ''c1'') ''k''
                      (Some stale_overrides) ''r1''))
       = [(''console'', overrides_warning)]
   \<and> sent (snd (ClusterCacheClient_get worker_with_client (client_of ''c1'' ''c1'') ''k'' None ''r1''))
       = [\<lparr>args = \<lparr>key = Some ''k'', namespace = ''c1'',
                    options = Some \<lparr>allowStale = Some False, ttl = Some 300000,
                                    updateAgeOnGet = Some True, size_opt = None\<rparr>,
                    val = None\<rparr>,
           clientId = ''c1'', operation = ''get'', requestId = ''r1'', sourceId = ''cluster-cache''\<rparr>]"
proof -
  let ?c = "client_of ''c1'' ''c1''"
  let ?w = "worker_with_client\<lparr>warnings := warnings worker_with_client @ [(client_logger ?c, overrides_warning)]\<rparr>"
  have c: "config worker_with_client ?c = initial_defaultConfig"
    by (simp add: config_def worker_with_client_def fresh_process_def)
  have r: "\<not> allowOverrides (config worker_with_client ?c)"
    by (simp add: c initial_defaultConfig_def)
  have h: "hasSend worker_with_client" "sent worker_with_client = []"
    by (simp_all add: worker_with_client_def fresh_process_def)
  have o: "requestOptions (config worker_with_client ?c)
       = \<lparr>allowStale = Some False, ttl = Some 300000, updateAgeOnGet = Some True, size_opt = None\<rparr>"
    by (simp add: c initial_defaultConfig_def)
  have i: "client_id ?c = ''c1''" "client_namespace ?c = ''c1''"
    by (simp_all add: client_of_def)
  have w: "hasSend ?w" "sent ?w = []"
    by (simp_all add: h)
  have wl: "warnings ?w = [(''console'', overrides_warning)]"
    by (simp add: worker_with_client_def fresh_process_def client_of_def)
  have a: "sent (snd (ClusterCacheClient_get worker_with_client ?c ''k'' (Some stale_overrides) ''r1''))
       = [\<lparr>args = \<lparr>key = Some ''k'', namespace = ''c1'', options = None, val = None\<rparr>,
           clientId = ''c1'', operation = ''get'', requestId = ''r1'', sourceId = ''cluster-cache''\<rparr>]"
    unfolding ClusterCacheClient_get_def Let_def addRequestOptions_refused[OF r]
    by (simp add: sent_request w i ClusterCacheClient_sourceId_def)
  have l: "warnings (snd (ClusterCacheClient_get worker_with_client ?c ''k'' (Some stale_overrides) ''r1''))
       = [(''console'', overrides_warning)]"
    unfolding ClusterCacheClient_get_def Let_def addRequestOptions_refused[OF r]
    by (simp only: prod.case request_warnings wl)
  have b: "sent (snd (ClusterCacheClient_get worker_with_client ?c ''k'' None ''r1''))
       = [\<lparr>args = \<lparr>key = Some ''k'', namespace = ''c1'',
                    options = Some \<lparr>allowStale = Some False, ttl = Some 300000,
                                    updateAgeOnGet = Some True, size_opt = None\<rparr>,
                    val = None\<rparr>,
           clientId = ''c1'', operation = ''get'', requestId = ''r1'', sourceId = ''cluster-cache''\<rparr>]"
    unfolding ClusterCacheClient_get_def Let_def addRequestOptions_no_overrides o
    by (simp add: sent_request h i ClusterCacheClient_sourceId_def)
  show ?thesis
    using r o a l b by blast
qed

text \<open>
  With \<open>allowOverrides\<close> true, a \<open>get\<close> with overrides leaves the overrides merged into
  the configured \<open>requestOptions\<close>.
\<close>

lemma get_with_overrides_changes_config:
  assumes "allowOverrides (config s this)"
  shows "requestOptions (config (snd (ClusterCacheClient_get s this k (Some ov) rid)) this)
         = merge_options (requestOptions (config s this)) (Some ov)"
  unfolding ClusterCacheClient_get_def Let_def addRequestOptions_allowed[OF assms]
  by (simp add: config_def request_defaultConfig)

lemma set_with_overrides_changes_config:
  assumes "allowOverrides (config s this)"
  shows "requestOptions (config (snd (ClusterCacheClient_set s this k v (Some ov) rid)) this)
         = merge_options (requestOptions (config s this)) (Some ov)"
  unfolding ClusterCacheClient_set_def Let_def addRequestOptions_allowed[OF assms]
  by (simp add: config_def request_defaultConfig)

text \<open>
  Claim C7 says that with \<open>allowOverrides\<close> true the overrides of a call apply to that
  call only, and that a later call without overrides uses the options configured at first.
  In the code \<open>merge\<close> assigns the overrides into \<open>this.config.requestOptions\<close>: after
  \<open>get('k', {allowStale: true, updateAgeOnGet: false})\<close> the configured options hold the
  overrides, and the request of a following \<open>get('k')\<close> carries them too.
\<close>

theorem overrides_persist:
  "allowOverrides (config overriding_worker (client_of ''c1'' ''c1''))
   \<and> requestOptions (config overriding_worker (client_of ''c1'' ''c1''))
       = \<lparr>allowStale = Some False, ttl = Some 300000, updateAgeOnGet = Some True, size_opt = None\<rparr>
   \<and> requestOptions (config (snd after_override) (fst after_override))
       = \<lparr>allowStale = Some True, ttl = Some 300000, updateAgeOnGet = Some False, size_opt = None\<rparr>
   \<and> map (\<lambda>m. options (args m))
        (sent (snd (ClusterCacheClient_get (snd after_override) (fst after_override) ''k'' None ''r2'')))
       = [Some \<lparr>allowStale = Some True, ttl = Some 300000, updateAgeOnGet = Some False, size_opt = None\<rparr>,
          Some \<lparr>allowStale = Some True, ttl = Some 300000, updateAgeOnGet = Some False, size_opt = None\<rparr>]"
proof -
  let ?c = "client_of ''c1'' ''c1''"
  let ?merged = "\<lparr>allowStale = Some True, ttl = Some 300000, updateAgeOnGet = Some False, size_opt = None\<rparr>"
  have c: "config overriding_worker ?c = initial_defaultConfig\<lparr>allowOverrides := True\<rparr>"
    by (simp add: config_def overriding_worker_def)
  have al: "allowOverrides (config overriding_worker ?c)"
    by (simp add: c)
  have o: "requestOptions (config overriding_worker ?c)
       = \<lparr>allowStale = Some False, ttl = Some 300000, updateAgeOnGet = Some True, size_opt = None\<rparr>"
    by (simp add: c initial_defaultConfig_def)
  have m: "merge_options (requestOptions (config overriding_worker ?c)) (Some stale_overrides) = ?merged"
    unfolding o by (simp add: merge_options_def stale_overrides_def no_overrides_def or_else_def)
  have h: "hasSend overriding_worker" "sent overriding_worker = []"
    by (simp_all add: overriding_worker_def fresh_process_def)
  let ?s1 = "overriding_worker\<lparr>defaultConfig := (defaultConfig overriding_worker)\<lparr>requestOptions := ?merged\<rparr>\<rparr>"
  let ?a1 = "\<lparr>key = Some ''k'', namespace = client_namespace ?c, options = Some ?merged, val = None\<rparr>"
  have ao: "after_override = ClusterCacheClient_request ?s1 ?c ''get'' ?a1 ''r1''"
    unfolding after_override_def ClusterCacheClient_get_def Let_def addRequestOptions_allowed[OF al] m
    by simp
  have d1: "defaultConfig (snd after_override)
            = (defaultConfig overriding_worker)\<lparr>requestOptions := ?merged\<rparr>"
    by (simp add: ao request_defaultConfig)
  have o1: "requestOptions (config (snd after_override) (fst after_override)) = ?merged"
    by (simp add: config_def d1)
  have s1: "sent (snd after_override)
            = [\<lparr>args = ?a1, clientId = client_id ?c, operation = ''get'', requestId = ''r1'',
                sourceId = ClusterCacheClient_sourceId\<rparr>]"
    by (simp add: ao sent_request h)
  have h1: "hasSend (snd after_override)"
    by (simp add: ao request_hasSend h)
  have "sent (snd (ClusterCacheClient_get (snd after_override) (fst after_override) ''k'' None ''r2''))
        = sent (snd after_override)
          @ [\<lparr>args = \<lparr>key = Some ''k'', namespace = client_namespace (fst after_override),
                       options = Some ?merged, val = None\<rparr>,
               clientId = client_id (fst after_override), operation = ''get'', requestId = ''r2'',
               sourceId = ClusterCacheClient_sourceId\<rparr>]"
    unfolding ClusterCacheClient_get_def Let_def addRequestOptions_no_overrides o1
    by (simp add: sent_request h1)
  then have s2: "map (\<lambda>m. options (args m))
        (sent (snd (ClusterCacheClient_get (snd after_override) (fst after_override) ''k'' None ''r2'')))
       = [Some ?merged, Some ?merged]"
    by (simp add: s1)
  show ?thesis
    using al o o1 s2 by blast
qed

section \<open>Timeouts\<close>

lemma fire_timeout_client: "fst (fire_timeout s this rid) = this"
  by (simp add: fire_timeout_def split: option.splits)

text \<open>
  When the timer of a request fires before a reply has come, the promise is rejected with
  the error that names the operation, the request and the client, the timer is gone, and
  the callback is still registered under the request id.
\<close>

lemma times_out_client:
  "fst (times_out s this op a rid)
   = this\<lparr>pendingRequests := (pendingRequests this)(rid \<mapsto> Callback rid rid)\<rparr>"
  by (simp add: times_out_def case_prod_beta fire_timeout_client request_client)

lemma times_out_promise:
  "promises (snd (times_out s this op a rid)) rid
   = Some (Rejected (timeout_error op rid (client_id this)))"
  by (simp add: times_out_def ClusterCacheClient_request_def Let_def fire_timeout_def reject_def)

lemma times_out_timer:
  "timers (snd (times_out s this op a rid)) rid = None"
  by (simp add: times_out_def ClusterCacheClient_request_def Let_def fire_timeout_def reject_def)

lemma timed_out_eq:
  "timed_out = times_out worker_with_client (client_of ''c1'' ''c1'') ''get''
      \<lparr>key = Some ''k'', namespace = ''c1'',
       options = Some (requestOptions (config worker_with_client (client_of ''c1'' ''c1''))),
       val = None\<rparr> ''r1''"
  unfolding timed_out_def times_out_def ClusterCacheClient_get_def Let_def addRequestOptions_no_overrides
  by (simp add: client_of_def)

lemma timed_out_error:
  "timeout_error ''get'' ''r1'' (client_id (client_of ''c1'' ''c1''))
   = Error ''Cluster cache get request timed out: request ID r1, client ID c1.''"
  by (simp add: timeout_error_def client_of_def)

text \<open>
  Claim C1 says that a request with no reply within the timeout rejects with the timeout
  error that names the request and the client, and that the pending operation is removed
  from the registry when the timer fires. The code rejects the promise with that error; the
  callback of the timer does not touch \<open>pendingRequests\<close>, so the entry of \<open>r1\<close> is still
  registered after the timeout.
\<close>

theorem timeout_leaves_pending_request:
  "promises (snd timed_out) ''r1''
     = Some (Rejected (Error ''Cluster cache get request timed out: request ID r1, client ID c1.''))
   \<and> pendingRequests (fst timed_out) ''r1'' = Some (Callback ''r1'' ''r1'')"
  unfolding timed_out_eq times_out_client times_out_promise timed_out_error by simp

text \<open>
  Only a reply that comes later removes the entry, as \<open>handleReply\<close> does for every
  matching reply; the promise stays rejected.
\<close>

lemma late_reply_removes_entry:
  "pendingRequests (fst (handleReply (snd timed_out) (fst timed_out)
          \<lparr>reply_clientId = ''c1'', reply_data = Some (JNum 1), reply_error = None,
           reply_requestId = ''r1'', reply_sourceId = ''cluster-cache''\<rparr>)) ''r1'' = None
   \<and> promises (snd (handleReply (snd timed_out) (fst timed_out)
          \<lparr>reply_clientId = ''c1'', reply_data = Some (JNum 1), reply_error = None,
           reply_requestId = ''r1'', reply_sourceId = ''cluster-cache''\<rparr>)) ''r1''
       = Some (Rejected (Error ''Cluster cache get request timed out: request ID r1, client ID c1.''))"
proof -
  have p: "promises (snd timed_out) ''r1''
     = Some (Rejected (Error ''Cluster cache get request timed out: request ID r1, client ID c1.''))"
    unfolding timed_out_eq times_out_promise timed_out_error by simp
  have q: "pendingRequests (fst timed_out) ''r1'' = Some (Callback ''r1'' ''r1'')"
    unfolding timed_out_eq times_out_client by simp
  have i: "client_id (fst timed_out) = ''c1''"
    unfolding timed_out_eq times_out_client by (simp add: client_of_def)
  show ?thesis
    by (simp add: handleReply_def ClusterCacheClient_sourceId_def i q run_callback_def
        clearTimeout_def resolve_def p)
qed

text \<open>A matching reply that comes before the timer fires settles the promise and removes the entry.\<close>

lemma handleReply_matching:
  assumes "reply_sourceId r = ClusterCacheClient_sourceId"
    and "reply_clientId r = client_id this"
    and "pendingRequests this (reply_requestId r) = Some cb"
  shows "handleReply s this r
         = (this\<lparr>pendingRequests := (pendingRequests this)(reply_requestId r := None)\<rparr>,
            run_callback cb r s)"
  using assms by (simp add: handleReply_def)

lemma handleReply_ignored:
  assumes "reply_sourceId r \<noteq> ClusterCacheClient_sourceId \<or> reply_clientId r \<noteq> client_id this
           \<or> pendingRequests this (reply_requestId r) = None"
  shows "handleReply s this r = (this, s)"
  using assms by (auto simp: handleReply_def)

end
